theory Spec2Isabelle
  imports Main
begin

section \<open>Python strings and the errors the code can raise\<close>

text \<open>
  A Python \<open>str\<close> is a sequence of Unicode code points, so a string is a list of
  code points (natural numbers), and \<open>len\<close> is \<open>length\<close>. \<open>str\<close> turns an
  ASCII literal of the source into that representation.
\<close>

type_synonym codepoint = nat
type_synonym pystr = "codepoint list"

definition str :: "string \<Rightarrow> pystr" where
  "str s = map of_char s"

text \<open>The exceptions that can leave the functions of \<open>schema_generator.py\<close>.\<close>

datatype py_error = IndexError | KeyError | ValueError | OSError

text \<open>
  \<open>str.isalpha\<close> and \<open>str.isalnum\<close> consult Python's Unicode character database,
  which is not part of the repository. On ASCII the classification is written out
  (letters \<open>A-Z\<close>, \<open>a-z\<close>; digits \<open>0-9\<close>); beyond ASCII it is a parameter: the
  two tables of the database the code depends on. \<open>isalnum\<close> is, as in CPython,
  \<open>isalpha\<close> or one of \<open>isdecimal\<close>, \<open>isdigit\<close>, \<open>isnumeric\<close>; the last
  three are the one table \<open>db_isnumeric\<close>, since every decimal or digit character is
  numeric.
\<close>

record unicode_db =
  db_isalpha :: "codepoint \<Rightarrow> bool"
  db_isnumeric :: "codepoint \<Rightarrow> bool"

definition isalpha :: "unicode_db \<Rightarrow> codepoint \<Rightarrow> bool" where
  "isalpha U c =
     (if c < 128 then (65 \<le> c \<and> c \<le> 90) \<or> (97 \<le> c \<and> c \<le> 122)
      else db_isalpha U c)"

definition isalnum :: "unicode_db \<Rightarrow> codepoint \<Rightarrow> bool" where
  "isalnum U c =
     (isalpha U c \<or> (if c < 128 then 48 \<le> c \<and> c \<le> 57 else db_isnumeric U c))"

text \<open>
  A database in which no code point beyond ASCII is a letter or a number. It is used
  only to evaluate the code on ASCII inputs, where the tables are never consulted.
\<close>

definition ascii_db :: unicode_db where
  "ascii_db = \<lparr>db_isalpha = (\<lambda>c. False), db_isnumeric = (\<lambda>c. False)\<rparr>"

text \<open>The underscore, \<open>'_'\<close>.\<close>

definition underscore :: codepoint where
  "underscore = 95"

text \<open>
  \<open>s.split(sep)\<close> for a one-character separator: the segments between the
  separators, empty ones included; the empty string gives one empty segment.
\<close>

fun split :: "codepoint \<Rightarrow> pystr \<Rightarrow> pystr list" where
  "split sep [] = [[]]"
| "split sep (c # cs) =
     (if c = sep then [] # split sep cs
      else (case split sep cs of
              [] \<Rightarrow> [[c]]
            | w # ws \<Rightarrow> (c # w) # ws))"

text \<open>\<open>sep.join(ws)\<close>.\<close>

fun join :: "pystr \<Rightarrow> pystr list \<Rightarrow> pystr" where
  "join sep [] = []"
| "join sep [w] = w"
| "join sep (w # ws) = w @ sep @ join sep ws"

section \<open>The column name sanitizer\<close>

text \<open>
  \<^verbatim>\<open>
  def sanitize_bigquery_column_name(name):
      sanitized = ''.join(c if c.isalnum() or c == '_' else '_' for c in name)
      if not sanitized[0].isalpha() and not sanitized[0] == '_':
          sanitized = '_' + sanitized
      sanitized = '_'.join(filter(None, sanitized.split('_')))
      return sanitized[:128]
  \<close>
  \<open>sanitized[0]\<close> raises \<open>IndexError\<close> on the empty string; \<open>filter(None, ...)\<close>
  keeps the non-empty segments.
\<close>

definition replace_symbols :: "unicode_db \<Rightarrow> pystr \<Rightarrow> pystr" where
  "replace_symbols U name =
     map (\<lambda>c. if isalnum U c \<or> c = underscore then c else underscore) name"

definition collapse_underscores :: "pystr \<Rightarrow> pystr" where
  "collapse_underscores s =
     join [underscore] (filter (\<lambda>w. w \<noteq> []) (split underscore s))"

definition sanitize_bigquery_column_name :: "unicode_db \<Rightarrow> pystr \<Rightarrow> py_error + pystr" where
  "sanitize_bigquery_column_name U name =
     (let sanitized = replace_symbols U name in
      case sanitized of
        [] \<Rightarrow> Inl IndexError
      | c0 # _ \<Rightarrow>
          (let sanitized = (if \<not> isalpha U c0 \<and> \<not> c0 = underscore
                            then underscore # sanitized else sanitized);
               sanitized = collapse_underscores sanitized
           in Inr (take 128 sanitized)))"

section \<open>The type inferencer\<close>

text \<open>
  pandas is not part of the repository. A dtype is represented by the answers of the
  \<open>pandas.api.types\<close> predicates the code asks of it, together with the two
  comparisons \<open>pandas_dtype == object\<close> and \<open>dtype == 'int64'\<close>.
\<close>

record dtype =
  is_integer_dtype :: bool
  is_float_dtype :: bool
  is_bool_dtype :: bool
  is_datetime64_any_dtype :: bool
  is_string_dtype :: bool
  eq_object :: bool
  eq_int64 :: bool

text \<open>
  A Series has a dtype and its cells in row order; an absent cell (\<open>NaN\<close>) is
  \<open>None\<close>, a present one is given by its text in the file.
\<close>

record series =
  s_dtype :: dtype
  s_values :: "pystr option list"

definition isnull_any :: "'a option list \<Rightarrow> bool" where
  "isnull_any xs = list_ex (\<lambda>x. x = None) xs"

definition isnull_all :: "'a option list \<Rightarrow> bool" where
  "isnull_all xs = list_all (\<lambda>x. x = None) xs"

fun dropna :: "'a option list \<Rightarrow> 'a list" where
  "dropna [] = []"
| "dropna (None # xs) = dropna xs"
| "dropna (Some x # xs) = x # dropna xs"

text \<open>\<open>Series.nunique()\<close>: the number of distinct values, absent ones not counted.\<close>

definition nunique :: "'a option list \<Rightarrow> nat" where
  "nunique xs = length (remdups (dropna xs))"

text \<open>
  A parsed date/time: its calendar day and its time of day (what \<open>.dt.time\<close>
  reads), the latter in microseconds after midnight.
\<close>

record timestamp =
  ts_date :: int
  ts_time :: nat

definition midnight :: nat where
  "midnight = 0"

definition dt_time :: "timestamp option list \<Rightarrow> nat option list" where
  "dt_time ts = map (map_option ts_time) ts"

text \<open>
  \<open>pd.to_datetime(values, errors='coerce')\<close> is pandas' date parser and a parameter
  of the model. It either yields one entry per value, \<open>None\<close> (\<open>NaT\<close>) where the
  value did not parse, or an exception leaves the \<open>try\<close> block (raised by the parser,
  or by the \<open>.dt\<close> accessor on a result that is not date/time-like).
\<close>

datatype to_datetime_result = Raises | Datetimes "timestamp option list"

datatype bq_type = STRING | INT64 | FLOAT64 | BOOL | TIMESTAMP | DATE

datatype bq_mode = NULLABLE | REQUIRED

text \<open>
  \<^verbatim>\<open>
  def infer_bigquery_type(pandas_dtype, column_series):
      bq_type = "STRING"
      bq_mode = "NULLABLE"
      if column_series.isnull().any():
          bq_mode = "NULLABLE"
      else:
          bq_mode = "NULLABLE"
      if pd.api.types.is_integer_dtype(pandas_dtype):
          if column_series.dtype == 'int64':
              bq_type = "INT64"
          else:
              bq_type = "INT64"
      elif pd.api.types.is_float_dtype(pandas_dtype):
          bq_type = "FLOAT64"
      elif pd.api.types.is_bool_dtype(pandas_dtype):
          bq_type = "BOOL"
      elif pd.api.types.is_datetime64_any_dtype(pandas_dtype):
          bq_type = "TIMESTAMP"
      elif pd.api.types.is_string_dtype(pandas_dtype) or pandas_dtype == object:
          try:
              temp_series = pd.to_datetime(column_series.dropna(), errors='coerce')
              if not temp_series.isnull().all():
                  if temp_series.dt.time.nunique() > 1:
                      bq_type = "TIMESTAMP"
                  else:
                      bq_type = "DATE"
              else:
                  bq_type = "STRING"
          except Exception:
              bq_type = "STRING"
      return bq_type, bq_mode
  \<close>
\<close>

definition infer_bigquery_type ::
    "(pystr list \<Rightarrow> to_datetime_result) \<Rightarrow> dtype \<Rightarrow> series \<Rightarrow> bq_type \<times> bq_mode" where
  "infer_bigquery_type to_datetime pandas_dtype column_series =
     (let bq_type = STRING;
          bq_mode = NULLABLE;
          bq_mode = (if isnull_any (s_values column_series) then NULLABLE else NULLABLE);
          bq_type =
            (if is_integer_dtype pandas_dtype then
               (if eq_int64 (s_dtype column_series) then INT64 else INT64)
             else if is_float_dtype pandas_dtype then FLOAT64
             else if is_bool_dtype pandas_dtype then BOOL
             else if is_datetime64_any_dtype pandas_dtype then TIMESTAMP
             else if is_string_dtype pandas_dtype \<or> eq_object pandas_dtype then
               (case to_datetime (dropna (s_values column_series)) of
                  Raises \<Rightarrow> STRING
                | Datetimes temp_series \<Rightarrow>
                    if \<not> isnull_all temp_series then
                      (if nunique (dt_time temp_series) > 1 then TIMESTAMP else DATE)
                    else STRING)
             else bq_type)
      in (bq_type, bq_mode))"

section \<open>The schema builder\<close>

text \<open>
  A DataFrame is its columns in source order, each a label and a Series.
  \<open>df.dtypes.items()\<close> yields the labels with their dtypes in that order.
  \<open>df[label]\<close> selects by label: a Series when exactly one column carries it, a
  sub-frame when several do, \<open>KeyError\<close> when none does.
\<close>

record column =
  col_name :: pystr
  col_series :: series

type_synonym dataframe = "column list"

datatype selection = Series series | SubFrame dataframe

definition dtypes_items :: "dataframe \<Rightarrow> (pystr \<times> dtype) list" where
  "dtypes_items df = map (\<lambda>c. (col_name c, s_dtype (col_series c))) df"

definition getitem :: "dataframe \<Rightarrow> pystr \<Rightarrow> py_error + selection" where
  "getitem df label =
     (case filter (\<lambda>c. col_name c = label) df of
        [] \<Rightarrow> Inl KeyError
      | [c] \<Rightarrow> Inr (Series (col_series c))
      | cs \<Rightarrow> Inr (SubFrame cs))"

text \<open>
  The labels \<open>pd.read_csv\<close> produces are non-empty and pairwise different: it names
  a blank header cell \<open>Unnamed: i\<close> and suffixes a repeated header with \<open>.1\<close>,
  \<open>.2\<close>, ...
\<close>

definition well_labelled :: "dataframe \<Rightarrow> bool" where
  "well_labelled df = (distinct (map col_name df) \<and> list_all (\<lambda>c. col_name c \<noteq> []) df)"

record field_descriptor =
  fd_name :: pystr
  fd_type :: bq_type
  fd_mode :: bq_mode
  fd_description :: pystr

text \<open>
  The outcome of \<open>pd.read_csv\<close>: a frame, \<open>FileNotFoundError\<close>, or another
  exception with its message. The parser is a parameter: a function of the file
  system's contents and the path.
\<close>

datatype read_error = FileNotFoundError | OtherException pystr

record pandas =
  read_csv :: "(pystr \<rightharpoonup> pystr) \<Rightarrow> pystr \<Rightarrow> read_error + dataframe"
  to_datetime :: "pystr list \<Rightarrow> to_datetime_result"

text \<open>
  What the program can observe and change: the lines printed so far, the files, and
  which paths \<open>open(path, "w")\<close> can open.
\<close>

record world =
  stdout :: "pystr list"
  files :: "pystr \<rightharpoonup> pystr"
  writable :: "pystr \<Rightarrow> bool"

definition print :: "pystr \<Rightarrow> world \<Rightarrow> world" where
  "print line w = w\<lparr>stdout := stdout w @ [line]\<rparr>"

text \<open>
  The body of the loop
  \<^verbatim>\<open>
  for column_name, pandas_dtype in df.dtypes.items():
      column_series = df[column_name]
      sanitized_bq_name = sanitize_bigquery_column_name(column_name)
      bq_type, bq_mode = infer_bigquery_type(pandas_dtype, column_series)
      bq_schema_fields.append({
          "name": sanitized_bq_name,
          "type": bq_type,
          "mode": bq_mode,
          "description": f"Inferred from CSV column '{column_name}'"
      })
  \<close>
  with the list built so far as an accumulator. The loop is not inside a \<open>try\<close>:
  an exception ends it. When \<open>df[column_name]\<close> is a sub-frame, the test
  \<open>if column_series.isnull().any()\<close> is on a Series of several truth values and
  raises \<open>ValueError\<close>.
\<close>

fun schema_fields ::
    "unicode_db \<Rightarrow> (pystr list \<Rightarrow> to_datetime_result) \<Rightarrow> dataframe \<Rightarrow>
     field_descriptor list \<Rightarrow> (pystr \<times> dtype) list \<Rightarrow> py_error + field_descriptor list" where
  "schema_fields U td df bq_schema_fields [] = Inr bq_schema_fields"
| "schema_fields U td df bq_schema_fields ((column_name, pandas_dtype) # items) =
     (case getitem df column_name of
        Inl e \<Rightarrow> Inl e
      | Inr column_series \<Rightarrow>
          (case sanitize_bigquery_column_name U column_name of
             Inl e \<Rightarrow> Inl e
           | Inr sanitized_bq_name \<Rightarrow>
               (case column_series of
                  SubFrame cs \<Rightarrow> Inl ValueError
                | Series s \<Rightarrow>
                    (let (bq_type, bq_mode) = infer_bigquery_type td pandas_dtype s in
                     schema_fields U td df
                       (bq_schema_fields @
                        [\<lparr>fd_name = sanitized_bq_name,
                          fd_type = bq_type,
                          fd_mode = bq_mode,
                          fd_description =
                            str ''Inferred from CSV column '' @ [39] @ column_name @ [39]\<rparr>])
                       items))))"

text \<open>
  \<^verbatim>\<open>
  def infer_bigquery_schema_from_csv(csv_file_path):
      try:
          df = pd.read_csv(csv_file_path, low_memory=False, keep_default_na=True,
                           na_values=['', 'NA', 'N/A', 'NULL'])
      except FileNotFoundError:
          print(f"Error: CSV file not found at {csv_file_path}")
          return []
      except Exception as e:
          print(f"Error reading CSV file: {e}")
          return []
      bq_schema_fields = []
      for ...
      return bq_schema_fields
  \<close>
\<close>

definition infer_bigquery_schema_from_csv ::
    "unicode_db \<Rightarrow> pandas \<Rightarrow> pystr \<Rightarrow> world \<Rightarrow> (py_error + field_descriptor list) \<times> world" where
  "infer_bigquery_schema_from_csv U P csv_file_path w =
     (case read_csv P (files w) csv_file_path of
        Inl FileNotFoundError \<Rightarrow>
          (Inr [], print (str ''Error: CSV file not found at '' @ csv_file_path) w)
      | Inl (OtherException e) \<Rightarrow>
          (Inr [], print (str ''Error reading CSV file: '' @ e) w)
      | Inr df \<Rightarrow>
          (schema_fields U (to_datetime P) df [] (dtypes_items df), w))"

section \<open>The entry point\<close>

text \<open>
  \<^verbatim>\<open>
  if __name__ == "__main__":
      csv_file = "Dinamo_Bucuresti_2024_2025_events.csv"
      output_schema_file = "bigquery_schema_inferred.json"
      inferred_bq_schema = infer_bigquery_schema_from_csv(csv_file)
      if inferred_bq_schema:
          print("--- Inferred BigQuery Schema ---")
          print(json.dumps(inferred_bq_schema, indent=2))
          with open(output_schema_file, "w") as f:
              json.dump(inferred_bq_schema, f, indent=2)
          print(f"\nInferred BigQuery schema saved to {output_schema_file}")
      else:
          print("Schema inference failed or returned an empty schema.")
  \<close>
  \<open>json_dumps\<close> is the serializer \<open>json.dumps(_, indent=2)\<close>, a parameter;
  \<open>json.dump\<close> writes the same text to the file. The result is the uncaught
  exception, if any.
\<close>

definition csv_file :: pystr where
  "csv_file = str ''Dinamo_Bucuresti_2024_2025_events.csv''"



section \<open>Notions used in the statements\<close>

text \<open>\<open>sanitize(sanitize(x))\<close>: the second call runs only if the first returned.\<close>

definition sanitize_twice :: "unicode_db \<Rightarrow> pystr \<Rightarrow> py_error + pystr" where
  "sanitize_twice U name =
     (case sanitize_bigquery_column_name U name of
        Inl e \<Rightarrow> Inl e
      | Inr r \<Rightarrow> sanitize_bigquery_column_name U r)"

text \<open>
  The specification's pattern for a sanitized name, \<open>^[A-Za-z_][A-Za-z0-9_]*$\<close>,
  written from the specification and not from the code.
\<close>

definition ascii_letter :: "codepoint \<Rightarrow> bool" where
  "ascii_letter c = ((65 \<le> c \<and> c \<le> 90) \<or> (97 \<le> c \<and> c \<le> 122))"

definition ascii_digit :: "codepoint \<Rightarrow> bool" where
  "ascii_digit c = (48 \<le> c \<and> c \<le> 57)"

definition spec_identifier_pattern :: "pystr \<Rightarrow> bool" where
  "spec_identifier_pattern s =
     (case s of
        [] \<Rightarrow> False
      | c # cs \<Rightarrow>
          (ascii_letter c \<or> c = underscore) \<and>
          list_all (\<lambda>x. ascii_letter x \<or> ascii_digit x \<or> x = underscore) cs)"

text \<open>The characters the sanitizer lets through.\<close>

definition name_char :: "unicode_db \<Rightarrow> codepoint \<Rightarrow> bool" where
  "name_char U c = (isalnum U c \<or> c = underscore)"

text \<open>
  \<open>wellsep b s\<close>: no two underscores of \<open>s\<close> are adjacent, and \<open>s\<close> does not
  start with one when \<open>b\<close> holds (\<open>b\<close>: the previous character was an underscore,
  or there is none).
\<close>

fun wellsep :: "bool \<Rightarrow> pystr \<Rightarrow> bool" where
  "wellsep b [] = True"
| "wellsep b (c # cs) =
     (if c = underscore then \<not> b \<and> wellsep True cs else wellsep False cs)"

text \<open>The descriptor the loop appends for a column whose header sanitizes.\<close>

definition descriptor ::
    "unicode_db \<Rightarrow> (pystr list \<Rightarrow> to_datetime_result) \<Rightarrow> column \<Rightarrow> field_descriptor" where
  "descriptor U td c =
     \<lparr>fd_name = (case sanitize_bigquery_column_name U (col_name c) of
                   Inl e \<Rightarrow> [] | Inr n \<Rightarrow> n),
      fd_type = fst (infer_bigquery_type td (s_dtype (col_series c)) (col_series c)),
      fd_mode = snd (infer_bigquery_type td (s_dtype (col_series c)) (col_series c)),
      fd_description = str ''Inferred from CSV column '' @ [39] @ col_name c @ [39]\<rparr>"

section \<open>Concrete inputs\<close>

text \<open>The dtypes \<open>pd.read_csv\<close> gives a text column and a column of integers.\<close>

definition object_dtype :: dtype where
  "object_dtype =
     \<lparr>is_integer_dtype = False, is_float_dtype = False, is_bool_dtype = False,
      is_datetime64_any_dtype = False, is_string_dtype = True, eq_object = True,
      eq_int64 = False\<rparr>"

definition int64_dtype :: dtype where
  "int64_dtype =
     \<lparr>is_integer_dtype = True, is_float_dtype = False, is_bool_dtype = False,
      is_datetime64_any_dtype = False, is_string_dtype = False, eq_object = False,
      eq_int64 = True\<rparr>"

definition float64_dtype :: dtype where
  "float64_dtype =
     \<lparr>is_integer_dtype = False, is_float_dtype = True, is_bool_dtype = False,
      is_datetime64_any_dtype = False, is_string_dtype = False, eq_object = False,
      eq_int64 = False\<rparr>"

definition bool_dtype :: dtype where
  "bool_dtype =
     \<lparr>is_integer_dtype = False, is_float_dtype = False, is_bool_dtype = True,
      is_datetime64_any_dtype = False, is_string_dtype = False, eq_object = False,
      eq_int64 = False\<rparr>"

definition datetime64_dtype :: dtype where
  "datetime64_dtype =
     \<lparr>is_integer_dtype = False, is_float_dtype = False, is_bool_dtype = False,
      is_datetime64_any_dtype = True, is_string_dtype = False, eq_object = False,
      eq_int64 = False\<rparr>"

definition text_series :: "pystr option list \<Rightarrow> series" where
  "text_series vs = \<lparr>s_dtype = object_dtype, s_values = vs\<rparr>"

text \<open>
  A small date parser for the examples: it knows the texts of the specification's
  examples (days counted from 1970-01-01), parses nothing else, and raises on a
  series that holds the text \<open>raise\<close>.
\<close>

definition example_parse :: "pystr \<Rightarrow> timestamp option" where
  "example_parse v =
     (if v = str ''2024-01-01'' then Some \<lparr>ts_date = 19723, ts_time = midnight\<rparr>
      else if v = str ''2024-02-01'' then Some \<lparr>ts_date = 19754, ts_time = midnight\<rparr>
      else if v = str ''2024-01-01 10:30:00'' then Some \<lparr>ts_date = 19723, ts_time = 37800000000\<rparr>
      else if v = str ''2024-01-02 00:00:00'' then Some \<lparr>ts_date = 19724, ts_time = midnight\<rparr>
      else None)"

definition example_to_datetime :: "pystr list \<Rightarrow> to_datetime_result" where
  "example_to_datetime vs =
     (if str ''raise'' \<in> set vs then Raises else Datetimes (map example_parse vs))"

text \<open>A pandas whose \<open>read_csv\<close> has the given outcome whatever the path.\<close>

definition pandas_reading :: "read_error + dataframe \<Rightarrow> pandas" where
  "pandas_reading outcome =
     \<lparr>read_csv = (\<lambda>fs path. outcome), to_datetime = example_to_datetime\<rparr>"

definition example_frame :: dataframe where
  "example_frame =
     [\<lparr>col_name = str ''Team Name!'', col_series = text_series [Some (str ''Dinamo'')]\<rparr>,
      \<lparr>col_name = str ''2024 goals'',
        col_series = \<lparr>s_dtype = int64_dtype, s_values = [Some (str ''3'')]\<rparr>\<rparr>]"

text \<open>Two headers that differ only in punctuation.\<close>

definition colliding_frame :: dataframe where
  "colliding_frame =
     [\<lparr>col_name = str ''A-B'', col_series = text_series [Some (str ''x'')]\<rparr>,
      \<lparr>col_name = str ''A_B'', col_series = text_series [Some (str ''y'')]\<rparr>]"

definition fresh_world :: world where
  "fresh_world = \<lparr>stdout = [], files = Map.empty, writable = (\<lambda>path. True)\<rparr>"



section \<open>Splitting and joining\<close>

lemma split_not_Nil: "split sep s \<noteq> []"
  by (induction s) (auto split: list.splits)

lemma join_split: "join [sep] (split sep s) = s"
proof (induction s)
  case Nil
  show ?case by simp
next
  case (Cons c cs)
  obtain w ws where sp: "split sep cs = w # ws"
    using split_not_Nil [of sep cs] by (cases "split sep cs") auto
  show ?case
  proof (cases "c = sep")
    case True
    with Cons sp show ?thesis by simp
  next
    case False
    with Cons sp show ?thesis by (cases ws) auto
  qed
qed

lemma split_no_sep: "w \<in> set (split sep s) \<Longrightarrow> sep \<notin> set w"
proof (induction s arbitrary: w)
  case Nil
  then show ?case by simp
next
  case (Cons c cs)
  obtain v vs where sp: "split sep cs = v # vs"
    using split_not_Nil [of sep cs] by (cases "split sep cs") auto
  show ?case
  proof (cases "c = sep")
    case True
    with Cons show ?thesis by auto
  next
    case False
    with Cons.prems sp have "w = c # v \<or> w \<in> set vs" by auto
    then show ?thesis
      using Cons.IH [of v] Cons.IH [of w] sp False by auto
  qed
qed

lemma split_chars: "w \<in> set (split sep s) \<Longrightarrow> set w \<subseteq> set s"
proof (induction s arbitrary: w)
  case Nil
  then show ?case by simp
next
  case (Cons c cs)
  obtain v vs where sp: "split sep cs = v # vs"
    using split_not_Nil [of sep cs] by (cases "split sep cs") auto
  show ?case
  proof (cases "c = sep")
    case True
    with Cons show ?thesis by auto
  next
    case False
    with Cons.prems sp have "w = c # v \<or> w \<in> set vs" by auto
    then show ?thesis
      using Cons.IH [of v] Cons.IH [of w] sp False by auto
  qed
qed

lemma join_chars: "set (join [sep] ws) \<subseteq> insert sep (\<Union> (set ` set ws))"
  by (induction "[sep]" ws rule: join.induct) auto

section \<open>Underscores in a sanitized name\<close>

lemma wellsep_word:
  "underscore \<notin> set w \<Longrightarrow> w \<noteq> [] \<Longrightarrow> wellsep b (w @ t) = wellsep False t"
proof (induction w arbitrary: b)
  case Nil
  then show ?case by simp
next
  case (Cons c cs)
  then show ?case by (cases cs) auto
qed

lemma wellsep_word_end: "underscore \<notin> set w \<Longrightarrow> wellsep b w"
  by (induction w arbitrary: b) auto

lemma wellsep_join:
  "\<forall>w \<in> set ws. w \<noteq> [] \<and> underscore \<notin> set w \<Longrightarrow> wellsep True (join [underscore] ws)"
proof (induction "[underscore]" ws rule: join.induct)
  case 1
  show ?case by simp
next
  case (2 w)
  then show ?case by (simp add: wellsep_word_end)
next
  case (3 w v vs)
  then show ?case by (simp add: wellsep_word)
qed

lemma wellsep_take: "wellsep b s \<Longrightarrow> wellsep b (take n s)"
proof (induction s arbitrary: n b)
  case Nil
  then show ?case by simp
next
  case (Cons c cs)
  then show ?case by (cases n) (auto split: if_splits)
qed

lemma wellsep_split:
  "wellsep b s \<Longrightarrow> s \<noteq> [] \<Longrightarrow> last s \<noteq> underscore \<Longrightarrow>
   [] \<notin> set (tl (split underscore s)) \<and> (b \<longrightarrow> hd (split underscore s) \<noteq> [])"
proof (induction s arbitrary: b)
  case Nil
  then show ?case by simp
next
  case (Cons c cs)
  obtain v vs where sp: "split underscore cs = v # vs"
    using split_not_Nil [of underscore cs] by (cases "split underscore cs") auto
  show ?case
  proof (cases "c = underscore")
    case True
    with Cons.prems have cs: "cs \<noteq> []" "last cs \<noteq> underscore" "wellsep True cs" "\<not> b"
      by (auto split: if_splits)
    from Cons.IH [OF cs(3) cs(1) cs(2)] sp True cs(4) show ?thesis by auto
  next
    case False
    show ?thesis
    proof (cases "cs = []")
      case True
      with False show ?thesis by simp
    next
      case nonempty: False
      with Cons.prems False have "wellsep False cs" "last cs \<noteq> underscore" by auto
      from Cons.IH [OF this(1) nonempty this(2)] sp False show ?thesis by auto
    qed
  qed
qed

lemma collapse_fixed:
  assumes "wellsep True s" "s \<noteq> []" "last s \<noteq> underscore"
  shows "collapse_underscores s = s" and "collapse_underscores (underscore # s) = s"
proof -
  obtain v vs where sp: "split underscore s = v # vs"
    using split_not_Nil [of underscore s] by (cases "split underscore s") auto
  from wellsep_split [OF assms] sp have "[] \<notin> set (split underscore s)" by auto
  then have f: "filter (\<lambda>w. w \<noteq> []) (split underscore s) = split underscore s"
    by (auto simp: filter_id_conv)
  show "collapse_underscores s = s"
    by (simp add: collapse_underscores_def f join_split)
  show "collapse_underscores (underscore # s) = s"
    by (simp add: collapse_underscores_def f join_split)
qed

lemma collapse_wellsep: "wellsep True (collapse_underscores s)"
  unfolding collapse_underscores_def
  by (rule wellsep_join) (auto dest: split_no_sep)

lemma collapse_chars: "set (collapse_underscores s) \<subseteq> insert underscore (set s)"
proof -
  have "\<Union> (set ` set (filter (\<lambda>w. w \<noteq> []) (split underscore s))) \<subseteq> set s"
    using split_chars [of _ underscore s] by auto
  with join_chars [of underscore "filter (\<lambda>w. w \<noteq> []) (split underscore s)"]
  show ?thesis unfolding collapse_underscores_def by blast
qed

section \<open>Properties of the sanitizer\<close>

lemma replace_symbols_chars: "c \<in> set (replace_symbols U name) \<Longrightarrow> name_char U c"
  by (auto simp: replace_symbols_def name_char_def)

lemma replace_symbols_fixed: "\<forall>c \<in> set s. name_char U c \<Longrightarrow> replace_symbols U s = s"
  by (simp add: replace_symbols_def name_char_def map_idI)

lemma sanitize_Inr:
  assumes "sanitize_bigquery_column_name U name = Inr r"
  shows "length r \<le> 128" and "\<forall>c \<in> set r. name_char U c" and "wellsep True r"
proof -
  from assms obtain s where r: "r = take 128 (collapse_underscores s)"
    and s: "s = replace_symbols U name \<or> s = underscore # replace_symbols U name"
    by (auto simp: sanitize_bigquery_column_name_def Let_def split: list.splits if_splits)
  show "length r \<le> 128" by (simp add: r)
  show "wellsep True r" by (simp add: r wellsep_take collapse_wellsep)
  have "set s \<subseteq> insert underscore (set (replace_symbols U name))" using s by auto
  with collapse_chars [of s]
  have "set (collapse_underscores s) \<subseteq> insert underscore (set (replace_symbols U name))"
    by blast
  moreover have "set r \<subseteq> set (collapse_underscores s)" by (simp add: r set_take_subset)
  ultimately show "\<forall>c \<in> set r. name_char U c"
    using replace_symbols_chars [of _ U name] by (auto simp: name_char_def)
qed

lemma sanitize_fixed:
  assumes len: "length r \<le> 128" and ch: "\<forall>c \<in> set r. name_char U c" and ws: "wellsep True r"
    and ne: "r \<noteq> []" and la: "last r \<noteq> underscore"
  shows "sanitize_bigquery_column_name U r = Inr r"
proof -
  obtain c0 cs where r: "r = c0 # cs" using ne by (cases r) auto
  have rs: "replace_symbols U r = r" using ch by (rule replace_symbols_fixed)
  show ?thesis
    unfolding sanitize_bigquery_column_name_def rs Let_def
    using collapse_fixed [OF ws ne la] len by (simp add: r)
qed

lemma sanitize_nonempty: "name \<noteq> [] \<Longrightarrow> \<exists>r. sanitize_bigquery_column_name U name = Inr r"
  by (cases name) (simp_all add: sanitize_bigquery_column_name_def replace_symbols_def Let_def)

lemma sanitize_empty: "sanitize_bigquery_column_name U [] = Inl IndexError"
  by (simp add: sanitize_bigquery_column_name_def replace_symbols_def)

text \<open>
  C2. The claim: every returned name matches \<open>^[A-Za-z_][A-Za-z0-9_]*$\<close> or is empty.
  The code prepends an underscore to a name that starts with a digit, and the
  split/filter/join of the next line removes it again: the header \<open>1abc\<close> comes back
  as \<open>1abc\<close>, which is not empty and does not match the pattern.
\<close>

theorem sanitize_digit_first_keeps_digit:
  "sanitize_bigquery_column_name ascii_db (str ''1abc'') = Inr (str ''1abc'')
   \<and> str ''1abc'' \<noteq> []
   \<and> \<not> spec_identifier_pattern (str ''1abc'')"
  by code_simp

text \<open>
  C3, as stated: \<open>sanitize(sanitize(x)) = sanitize(x)\<close> for every header. It fails
  for the header \<open>!\<close>, whose sanitized name is empty, so that the second call raises
  \<open>IndexError\<close>; and for 127 letters \<open>a\<close> followed by \<open>_b\<close>, which is cut after the
  underscore, and the second call removes that underscore.
\<close>

theorem sanitize_not_idempotent:
  "sanitize_twice ascii_db (str ''!'') \<noteq> sanitize_bigquery_column_name ascii_db (str ''!'')
   \<and> sanitize_twice ascii_db (replicate 127 97 @ str ''_b'')
       \<noteq> sanitize_bigquery_column_name ascii_db (replicate 127 97 @ str ''_b'')"
  by code_simp

text \<open>
  C3, amended: when the sanitized name is not empty and does not end with an
  underscore, sanitizing it again returns it unchanged.
\<close>

theorem sanitize_idempotent_on_proper_names:
  assumes "sanitize_bigquery_column_name U name = Inr r"
    and "r \<noteq> []" and "last r \<noteq> underscore"
  shows "sanitize_twice U name = sanitize_bigquery_column_name U name"
proof -
  have "sanitize_bigquery_column_name U r = Inr r"
    using sanitize_fixed [OF sanitize_Inr [OF assms(1)] assms(2,3)] .
  with assms(1) show ?thesis by (simp add: sanitize_twice_def)
qed

theorem sanitize_idempotent_on_proper_names_witness:
  "sanitize_bigquery_column_name ascii_db (str ''Team Name!'') = Inr (str ''Team_Name'')
   \<and> sanitize_twice ascii_db (str ''Team Name!'') = Inr (str ''Team_Name'')"
proof -
  have h: "sanitize_bigquery_column_name ascii_db (str ''Team Name!'') = Inr (str ''Team_Name'')"
    by code_simp
  have n: "str ''Team_Name'' \<noteq> []" "last (str ''Team_Name'') \<noteq> underscore"
    by code_simp+
  from sanitize_idempotent_on_proper_names [OF h n] h show ?thesis by simp
qed

text \<open>
  C10. The sanitizer returns a name for every non-empty header, and raises
  \<open>IndexError\<close> (from \<open>sanitized[0]\<close>) for the empty one.
\<close>

theorem sanitize_total_on_nonempty:
  "(name \<noteq> [] \<longrightarrow> (\<exists>r. sanitize_bigquery_column_name U name = Inr r))
   \<and> (name = [] \<longrightarrow> sanitize_bigquery_column_name U name = Inl IndexError)"
  using sanitize_nonempty [of name U] sanitize_empty [of U] by auto

theorem sanitize_total_on_nonempty_witness:
  "(\<exists>r. sanitize_bigquery_column_name ascii_db (str ''a'') = Inr r)
   \<and> sanitize_bigquery_column_name ascii_db [] = Inl IndexError"
  using sanitize_total_on_nonempty [of "str ''a''" ascii_db]
    sanitize_total_on_nonempty [of "[]" ascii_db]
  by (simp add: str_def)

section \<open>Properties of the type inferencer\<close>

lemma set_dropna: "set (dropna xs) = {x. Some x \<in> set xs}"
proof (induction xs)
  case Nil
  show ?case by simp
next
  case (Cons a xs)
  then show ?case by (cases a) auto
qed

lemma dropna_map_option: "dropna (map (map_option f) xs) = map f (dropna xs)"
proof (induction xs)
  case Nil
  show ?case by simp
next
  case (Cons a xs)
  then show ?case by (cases a) auto
qed

lemma isnull_all_iff: "isnull_all xs = (\<forall>x \<in> set xs. x = None)"
  by (simp add: isnull_all_def list_all_iff)

lemma isnull_all_parsed: "(\<not> isnull_all xs) = (\<exists>t. Some t \<in> set xs)"
  unfolding isnull_all_iff by (metis not_Some_eq)

lemma nunique_dt_time: "nunique (dt_time ts) = card (ts_time ` {t. Some t \<in> set ts})"
  by (simp add: nunique_def dt_time_def dropna_map_option length_remdups_card_conv set_dropna)

lemma infer_type_text:
  assumes "\<not> is_integer_dtype d" "\<not> is_float_dtype d" "\<not> is_bool_dtype d"
    "\<not> is_datetime64_any_dtype d" "is_string_dtype d \<or> eq_object d"
  shows "fst (infer_bigquery_type td d s) =
     (case td (dropna (s_values s)) of
        Raises \<Rightarrow> STRING
      | Datetimes ts \<Rightarrow>
          if \<exists>t. Some t \<in> set ts
          then (if 1 < card (ts_time ` {t. Some t \<in> set ts}) then TIMESTAMP else DATE)
          else STRING)"
  using assms
  by (simp add: infer_bigquery_type_def Let_def isnull_all_parsed nunique_dt_time
      split: to_datetime_result.split)

text \<open>
  C1. For a text-like column (one that reaches the last branch: not integer, float,
  boolean or date/time typed, and string typed or \<open>object\<close>): when at least one
  present value parses, the type is TIMESTAMP if more than one distinct time of day
  occurs among the parsed values and DATE otherwise; so it is DATE when all parsed
  values are at midnight; when no value parses, or parsing raises, it is STRING.
\<close>

theorem infer_bigquery_type_text_column:
  assumes "\<not> is_integer_dtype d" and "\<not> is_float_dtype d" and "\<not> is_bool_dtype d"
    and "\<not> is_datetime64_any_dtype d" and "is_string_dtype d \<or> eq_object d"
  shows
    "(td (dropna (s_values s)) = Datetimes ts \<and> (\<exists>t. Some t \<in> set ts) \<longrightarrow>
        (fst (infer_bigquery_type td d s) = TIMESTAMP
           \<longleftrightarrow> 1 < card (ts_time ` {t. Some t \<in> set ts}))
      \<and> (fst (infer_bigquery_type td d s) = DATE
           \<longleftrightarrow> \<not> 1 < card (ts_time ` {t. Some t \<in> set ts})))
     \<and> (td (dropna (s_values s)) = Datetimes ts \<and> (\<exists>t. Some t \<in> set ts)
          \<and> (\<forall>t. Some t \<in> set ts \<longrightarrow> ts_time t = midnight) \<longrightarrow>
        fst (infer_bigquery_type td d s) = DATE)
     \<and> (td (dropna (s_values s)) = Datetimes ts \<and> (\<forall>x \<in> set ts. x = None) \<longrightarrow>
        fst (infer_bigquery_type td d s) = STRING)
     \<and> (td (dropna (s_values s)) = Raises \<longrightarrow>
        fst (infer_bigquery_type td d s) = STRING)"
proof -
  note eq = infer_type_text [OF assms, of td s]
  have timestamp_or_date:
    "td (dropna (s_values s)) = Datetimes ts \<and> (\<exists>t. Some t \<in> set ts) \<longrightarrow>
        (fst (infer_bigquery_type td d s) = TIMESTAMP
           \<longleftrightarrow> 1 < card (ts_time ` {t. Some t \<in> set ts}))
      \<and> (fst (infer_bigquery_type td d s) = DATE
           \<longleftrightarrow> \<not> 1 < card (ts_time ` {t. Some t \<in> set ts}))"
    using eq by auto
  have all_midnight:
    "td (dropna (s_values s)) = Datetimes ts \<and> (\<exists>t. Some t \<in> set ts)
          \<and> (\<forall>t. Some t \<in> set ts \<longrightarrow> ts_time t = midnight) \<longrightarrow>
        fst (infer_bigquery_type td d s) = DATE"
  proof (intro impI, elim conjE)
    assume conv: "td (dropna (s_values s)) = Datetimes ts"
      and some: "\<exists>t. Some t \<in> set ts"
      and mid: "\<forall>t. Some t \<in> set ts \<longrightarrow> ts_time t = midnight"
    from mid have "ts_time ` {t. Some t \<in> set ts} \<subseteq> {midnight}" by auto
    then have "card (ts_time ` {t. Some t \<in> set ts}) \<le> card {midnight}"
      by (intro card_mono) auto
    then have "\<not> 1 < card (ts_time ` {t. Some t \<in> set ts})" by simp
    with eq conv some show "fst (infer_bigquery_type td d s) = DATE" by simp
  qed
  have none_parses:
    "td (dropna (s_values s)) = Datetimes ts \<and> (\<forall>x \<in> set ts. x = None) \<longrightarrow>
        fst (infer_bigquery_type td d s) = STRING"
    using eq by auto
  have raises:
    "td (dropna (s_values s)) = Raises \<longrightarrow> fst (infer_bigquery_type td d s) = STRING"
    using eq by simp
  from timestamp_or_date all_midnight none_parses raises show ?thesis by blast
qed

theorem infer_bigquery_type_text_column_witness:
  "fst (infer_bigquery_type example_to_datetime object_dtype
          (text_series [Some (str ''2024-01-01 10:30:00''), None, Some (str ''2024-01-02 00:00:00'')]))
     = TIMESTAMP
   \<and> fst (infer_bigquery_type example_to_datetime object_dtype
          (text_series [Some (str ''2024-01-01''), Some (str ''2024-01-02 00:00:00'')]))
     = DATE
   \<and> fst (infer_bigquery_type example_to_datetime object_dtype
          (text_series [Some (str ''hello''), Some (str ''world'')]))
     = STRING
   \<and> fst (infer_bigquery_type example_to_datetime object_dtype
          (text_series [Some (str ''raise'')]))
     = STRING"
proof -
  have d: "\<not> is_integer_dtype object_dtype" "\<not> is_float_dtype object_dtype"
    "\<not> is_bool_dtype object_dtype" "\<not> is_datetime64_any_dtype object_dtype"
    "is_string_dtype object_dtype \<or> eq_object object_dtype"
    by (simp_all add: object_dtype_def)
  note ev = example_to_datetime_def example_parse_def text_series_def str_def
  let ?a = "\<lparr>ts_date = 19723, ts_time = 37800000000\<rparr>"
  let ?b = "\<lparr>ts_date = 19724, ts_time = midnight\<rparr>"
  let ?s1 = "text_series [Some (str ''2024-01-01 10:30:00''), None, Some (str ''2024-01-02 00:00:00'')]"
  let ?s2 = "text_series [Some (str ''2024-01-01''), Some (str ''2024-01-02 00:00:00'')]"
  let ?c = "\<lparr>ts_date = 19723, ts_time = midnight\<rparr>"
  let ?s3 = "text_series [Some (str ''hello''), Some (str ''world'')]"
  let ?s4 = "text_series [Some (str ''raise'')]"
  have p1: "example_to_datetime (dropna (s_values ?s1)) = Datetimes [Some ?a, Some ?b]"
    by (simp add: ev)
  have n1: "1 < card (ts_time ` {t. Some t \<in> set [Some ?a, Some ?b]})"
    unfolding set_dropna [symmetric] by (simp add: midnight_def)
  have e1: "\<exists>t. Some t \<in> set [Some ?a, Some ?b]"
    by (rule exI [of _ ?a]) simp
  have r1: "fst (infer_bigquery_type example_to_datetime object_dtype ?s1) = TIMESTAMP"
    using infer_bigquery_type_text_column [OF d, of example_to_datetime ?s1 "[Some ?a, Some ?b]"]
      p1 n1 e1 by blast
  have p2: "example_to_datetime (dropna (s_values ?s2)) = Datetimes [Some ?c, Some ?b]"
    by (simp add: ev)
  have e2: "\<exists>t. Some t \<in> set [Some ?c, Some ?b]"
    by (rule exI [of _ ?b]) simp
  have m2: "\<forall>t. Some t \<in> set [Some ?c, Some ?b] \<longrightarrow> ts_time t = midnight"
    by simp
  have r2: "fst (infer_bigquery_type example_to_datetime object_dtype ?s2) = DATE"
    using infer_bigquery_type_text_column [OF d, of example_to_datetime ?s2 "[Some ?c, Some ?b]"]
      p2 e2 m2 by blast
  have p3: "example_to_datetime (dropna (s_values ?s3)) = Datetimes [None, None]"
    by (simp add: ev)
  have r3: "fst (infer_bigquery_type example_to_datetime object_dtype ?s3) = STRING"
    using infer_bigquery_type_text_column [OF d, of example_to_datetime ?s3 "[None, None]"]
      p3 by simp
  have p4: "example_to_datetime (dropna (s_values ?s4)) = Raises"
    by (simp add: ev)
  have r4: "fst (infer_bigquery_type example_to_datetime object_dtype ?s4) = STRING"
    using infer_bigquery_type_text_column [OF d, of example_to_datetime ?s4 "[]"]
      p4 by simp
  from r1 r2 r3 r4 show ?thesis by simp
qed

text \<open>
  C6. Whatever the dtype and the values, absent or not, the mode is NULLABLE;
  REQUIRED is never returned.
\<close>

theorem infer_bigquery_type_mode_nullable:
  "snd (infer_bigquery_type td d s) = NULLABLE \<and> snd (infer_bigquery_type td d s) \<noteq> REQUIRED"
  by (simp add: infer_bigquery_type_def Let_def)

text \<open>
  C7. The declared type decides in this order: integer gives INT64; else float gives
  FLOAT64; else boolean gives BOOL; else date/time gives TIMESTAMP. In each of these
  cases, and when the column is not text-like either, the result is the same for
  every date parser and every series: the values are looked at for text-like columns
  only.
\<close>

theorem infer_bigquery_type_priority:
  "(is_integer_dtype d \<longrightarrow> fst (infer_bigquery_type td d s) = INT64)
   \<and> (\<not> is_integer_dtype d \<and> is_float_dtype d \<longrightarrow> fst (infer_bigquery_type td d s) = FLOAT64)
   \<and> (\<not> is_integer_dtype d \<and> \<not> is_float_dtype d \<and> is_bool_dtype d \<longrightarrow>
        fst (infer_bigquery_type td d s) = BOOL)
   \<and> (\<not> is_integer_dtype d \<and> \<not> is_float_dtype d \<and> \<not> is_bool_dtype d
        \<and> is_datetime64_any_dtype d \<longrightarrow>
        fst (infer_bigquery_type td d s) = TIMESTAMP)
   \<and> (is_integer_dtype d \<or> is_float_dtype d \<or> is_bool_dtype d \<or> is_datetime64_any_dtype d
        \<or> \<not> (is_string_dtype d \<or> eq_object d) \<longrightarrow>
        infer_bigquery_type td d s = infer_bigquery_type td' d s')"
  by (simp add: infer_bigquery_type_def Let_def)

theorem infer_bigquery_type_priority_witness:
  "fst (infer_bigquery_type example_to_datetime int64_dtype (text_series [Some (str ''3'')])) = INT64
   \<and> fst (infer_bigquery_type example_to_datetime float64_dtype (text_series [None])) = FLOAT64
   \<and> fst (infer_bigquery_type example_to_datetime bool_dtype (text_series [])) = BOOL
   \<and> fst (infer_bigquery_type example_to_datetime datetime64_dtype (text_series [])) = TIMESTAMP
   \<and> infer_bigquery_type example_to_datetime int64_dtype (text_series [Some (str ''2024-01-01'')])
       = infer_bigquery_type (\<lambda>vs. Raises) int64_dtype (text_series [])"
  using infer_bigquery_type_priority
      [of int64_dtype example_to_datetime "text_series [Some (str ''3'')]"]
    infer_bigquery_type_priority
      [of float64_dtype example_to_datetime "text_series [None]"]
    infer_bigquery_type_priority
      [of bool_dtype example_to_datetime "text_series []"]
    infer_bigquery_type_priority
      [of datetime64_dtype example_to_datetime "text_series []"]
    infer_bigquery_type_priority
      [of int64_dtype example_to_datetime "text_series [Some (str ''2024-01-01'')]"
          "\<lambda>vs. Raises" "text_series []"]
  by (simp add: int64_dtype_def float64_dtype_def bool_dtype_def datetime64_dtype_def)

section \<open>Properties of the schema builder\<close>

lemma filter_by_distinct_key:
  "distinct (map f xs) \<Longrightarrow> x \<in> set xs \<Longrightarrow> filter (\<lambda>y. f y = f x) xs = [x]"
proof (induction xs)
  case Nil
  then show ?case by simp
next
  case (Cons a xs)
  show ?case
  proof (cases "a = x")
    case True
    with Cons.prems have "f x \<notin> f ` set xs" by simp
    then have "\<forall>y \<in> set xs. f y \<noteq> f x" by (metis imageI)
    then have "filter (\<lambda>y. f y = f x) xs = []" by (simp add: filter_empty_conv)
    with True show ?thesis by simp
  next
    case False
    with Cons.prems have "x \<in> set xs" "f a \<noteq> f x" by auto
    with Cons show ?thesis by simp
  qed
qed

lemma getitem_unique:
  "distinct (map col_name df) \<Longrightarrow> c \<in> set df \<Longrightarrow>
   getitem df (col_name c) = Inr (Series (col_series c))"
  by (simp add: getitem_def filter_by_distinct_key)

lemma sanitize_descriptor:
  "col_name c \<noteq> [] \<Longrightarrow>
   sanitize_bigquery_column_name U (col_name c) = Inr (fd_name (descriptor U td c))"
  using sanitize_nonempty [of "col_name c" U] by (auto simp: descriptor_def)

lemma schema_fields_well_labelled:
  assumes "well_labelled df"
  shows "set cs \<subseteq> set df \<Longrightarrow>
    schema_fields U td df acc (dtypes_items cs) = Inr (acc @ map (descriptor U td) cs)"
proof (induction cs arbitrary: acc)
  case Nil
  show ?case by (simp add: dtypes_items_def)
next
  case (Cons c cs)
  from Cons.prems have mem: "c \<in> set df" and rest: "set cs \<subseteq> set df" by auto
  from assms mem have ne: "col_name c \<noteq> []"
    by (auto simp: well_labelled_def list_all_iff)
  from assms have "distinct (map col_name df)" by (simp add: well_labelled_def)
  from getitem_unique [OF this mem]
  have sel: "getitem df (col_name c) = Inr (Series (col_series c))" .
  from sanitize_nonempty [OF ne, of U]
  obtain n where san: "sanitize_bigquery_column_name U (col_name c) = Inr n" ..
  have step: "schema_fields U td df acc (dtypes_items (c # cs)) =
      schema_fields U td df (acc @ [descriptor U td c]) (dtypes_items cs)"
    by (simp add: dtypes_items_def sel san descriptor_def split: prod.split)
  show ?case unfolding step Cons.IH [OF rest] by simp
qed

lemma infer_schema_frame:
  assumes "read_csv P (files w) csv_file_path = Inr df" and "well_labelled df"
  shows "infer_bigquery_schema_from_csv U P csv_file_path w =
    (Inr (map (descriptor U (to_datetime P)) df), w)"
  using assms(1) schema_fields_well_labelled [OF assms(2), of df U "to_datetime P" "[]"]
  by (simp add: infer_bigquery_schema_from_csv_def)

lemma infer_schema_failure:
  assumes "read_csv P (files w) csv_file_path = Inl e"
  shows "fst (infer_bigquery_schema_from_csv U P csv_file_path w) = Inr []"
    and "files (snd (infer_bigquery_schema_from_csv U P csv_file_path w)) = files w"
    and "stdout (snd (infer_bigquery_schema_from_csv U P csv_file_path w)) =
      stdout w @ [case e of
                    FileNotFoundError \<Rightarrow> str ''Error: CSV file not found at '' @ csv_file_path
                  | OtherException m \<Rightarrow> str ''Error reading CSV file: '' @ m]"
  using assms
  by (simp_all add: infer_bigquery_schema_from_csv_def print_def split: read_error.split)

lemma well_labelled_example: "well_labelled example_frame"
  by (simp add: well_labelled_def example_frame_def str_def)

lemma well_labelled_colliding: "well_labelled colliding_frame"
  by (simp add: well_labelled_def colliding_frame_def str_def)

lemma distinct_map_Inr: "distinct (map Inr xs) = distinct xs"
  by (induction xs) auto

text \<open>
  C4. When \<open>pd.read_csv\<close> fails, with \<open>FileNotFoundError\<close> or with any other
  exception, the function returns the empty list: no exception leaves it and no
  descriptor is returned.
\<close>

theorem read_failure_gives_empty_schema:
  assumes "read_csv P (files w) csv_file_path = Inl e"
  shows "fst (infer_bigquery_schema_from_csv U P csv_file_path w) = Inr []"
  using assms by (rule infer_schema_failure(1))

theorem read_failure_gives_empty_schema_witness:
  "fst (infer_bigquery_schema_from_csv ascii_db (pandas_reading (Inl FileNotFoundError))
          (str ''/nonexistent.csv'') fresh_world) = Inr []
   \<and> fst (infer_bigquery_schema_from_csv ascii_db
          (pandas_reading (Inl (OtherException (str ''No columns to parse from file''))))
          (str ''empty.csv'') fresh_world) = Inr []"
proof -
  have a: "read_csv (pandas_reading (Inl FileNotFoundError)) (files fresh_world)
      (str ''/nonexistent.csv'') = Inl FileNotFoundError"
    by (simp add: pandas_reading_def)
  have b: "read_csv (pandas_reading (Inl (OtherException (str ''No columns to parse from file''))))
      (files fresh_world) (str ''empty.csv'')
      = Inl (OtherException (str ''No columns to parse from file''))"
    by (simp add: pandas_reading_def)
  from read_failure_gives_empty_schema [OF a] read_failure_gives_empty_schema [OF b]
  show ?thesis by simp
qed

text \<open>
  C5, as stated: the field names of the schema are pairwise different. The headers
  \<open>A-B\<close> and \<open>A_B\<close> both become \<open>A_B\<close>: the schema of a file with these two
  columns has two descriptors with the same name.
\<close>

theorem schema_names_collide:
  "(case fst (infer_bigquery_schema_from_csv ascii_db (pandas_reading (Inr colliding_frame))
               csv_file fresh_world) of
      Inl e \<Rightarrow> False
    | Inr fs \<Rightarrow> length fs = length colliding_frame \<and> \<not> distinct (map fd_name fs))"
proof -
  have r: "read_csv (pandas_reading (Inr colliding_frame)) (files fresh_world) csv_file
      = Inr colliding_frame"
    by (simp add: pandas_reading_def)
  have n: "sanitize_bigquery_column_name ascii_db (str ''A-B'') = Inr (str ''A_B'')"
    "sanitize_bigquery_column_name ascii_db (str ''A_B'') = Inr (str ''A_B'')"
    by code_simp+
  have "map fd_name (map (descriptor ascii_db
      (to_datetime (pandas_reading (Inr colliding_frame)))) colliding_frame)
      = [str ''A_B'', str ''A_B'']"
    by (simp add: colliding_frame_def descriptor_def n)
  then show ?thesis
    unfolding infer_schema_frame [OF r well_labelled_colliding]
    by (simp add: colliding_frame_def)
qed

text \<open>
  C5, amended: the schema has one descriptor per column of the frame, and its field
  names are pairwise different exactly when the sanitized headers are; the code
  does nothing about headers that sanitize to the same name.
\<close>

theorem schema_names_distinct_iff:
  assumes "read_csv P (files w) csv_file_path = Inr df" and "well_labelled df"
  shows "\<exists>fs. fst (infer_bigquery_schema_from_csv U P csv_file_path w) = Inr fs
    \<and> length fs = length df
    \<and> (distinct (map fd_name fs)
         \<longleftrightarrow> distinct (map (\<lambda>c. sanitize_bigquery_column_name U (col_name c)) df))"
proof -
  let ?fs = "map (descriptor U (to_datetime P)) df"
  have names: "map (\<lambda>c. sanitize_bigquery_column_name U (col_name c)) df
      = map Inr (map fd_name ?fs)"
  proof -
    have "\<forall>c \<in> set df. sanitize_bigquery_column_name U (col_name c)
        = Inr (fd_name (descriptor U (to_datetime P) c))"
      using assms(2) sanitize_descriptor [of _ U "to_datetime P"]
      by (auto simp: well_labelled_def list_all_iff)
    then show ?thesis by simp
  qed
  have "distinct (map (\<lambda>c. sanitize_bigquery_column_name U (col_name c)) df)
      = distinct (map fd_name ?fs)"
    unfolding names by (rule distinct_map_Inr)
  then show ?thesis
    unfolding infer_schema_frame [OF assms] by simp
qed

theorem schema_names_distinct_iff_witness:
  "well_labelled example_frame
   \<and> (\<exists>fs. fst (infer_bigquery_schema_from_csv ascii_db (pandas_reading (Inr example_frame))
               csv_file fresh_world) = Inr fs
        \<and> length fs = length example_frame
        \<and> (distinct (map fd_name fs)
             \<longleftrightarrow> distinct (map (\<lambda>c. sanitize_bigquery_column_name ascii_db (col_name c))
                   example_frame)))"
proof -
  have r: "read_csv (pandas_reading (Inr example_frame)) (files fresh_world) csv_file
      = Inr example_frame"
    by (simp add: pandas_reading_def)
  from schema_names_distinct_iff [OF r well_labelled_example, of ascii_db]
    well_labelled_example
  show ?thesis by simp
qed

text \<open>
  C8. For a frame read from the file, with \<open>n\<close> columns, the function returns
  \<open>n\<close> descriptors, the \<open>i\<close>-th made from the \<open>i\<close>-th column: its name is the
  sanitized header, its type and mode are inferred from that column, and its
  description is \<open>Inferred from CSV column '<header>'\<close> with the header as it is in
  the file.
\<close>

theorem schema_follows_columns:
  assumes "read_csv P (files w) csv_file_path = Inr df" and "well_labelled df"
  shows "\<exists>fs. fst (infer_bigquery_schema_from_csv U P csv_file_path w) = Inr fs
    \<and> length fs = length df
    \<and> (\<forall>i < length df.
          sanitize_bigquery_column_name U (col_name (df ! i)) = Inr (fd_name (fs ! i))
          \<and> (fd_type (fs ! i), fd_mode (fs ! i))
              = infer_bigquery_type (to_datetime P) (s_dtype (col_series (df ! i)))
                  (col_series (df ! i))
          \<and> fd_description (fs ! i)
              = str ''Inferred from CSV column '' @ [39] @ col_name (df ! i) @ [39])"
proof -
  let ?fs = "map (descriptor U (to_datetime P)) df"
  have "\<forall>i < length df.
      sanitize_bigquery_column_name U (col_name (df ! i)) = Inr (fd_name (?fs ! i))
      \<and> (fd_type (?fs ! i), fd_mode (?fs ! i))
          = infer_bigquery_type (to_datetime P) (s_dtype (col_series (df ! i)))
              (col_series (df ! i))
      \<and> fd_description (?fs ! i)
          = str ''Inferred from CSV column '' @ [39] @ col_name (df ! i) @ [39]"
  proof (intro allI impI)
    fix i
    assume i: "i < length df"
    then have "df ! i \<in> set df" by simp
    with assms(2) have ne: "col_name (df ! i) \<noteq> []"
      by (auto simp: well_labelled_def list_all_iff)
    from sanitize_descriptor [OF ne, of U "to_datetime P"] i
    show "sanitize_bigquery_column_name U (col_name (df ! i)) = Inr (fd_name (?fs ! i))
      \<and> (fd_type (?fs ! i), fd_mode (?fs ! i))
          = infer_bigquery_type (to_datetime P) (s_dtype (col_series (df ! i)))
              (col_series (df ! i))
      \<and> fd_description (?fs ! i)
          = str ''Inferred from CSV column '' @ [39] @ col_name (df ! i) @ [39]"
      by (simp add: descriptor_def)
  qed
  then show ?thesis
    unfolding infer_schema_frame [OF assms] by simp
qed

theorem schema_follows_columns_witness:
  "well_labelled example_frame
   \<and> (\<exists>fs. fst (infer_bigquery_schema_from_csv ascii_db (pandas_reading (Inr example_frame))
               csv_file fresh_world) = Inr fs
        \<and> length fs = 2
        \<and> fd_description (fs ! 0) = str ''Inferred from CSV column '' @ [39] @ str ''Team Name!'' @ [39]
        \<and> fd_description (fs ! 1) = str ''Inferred from CSV column '' @ [39] @ str ''2024 goals'' @ [39])"
proof -
  have r: "read_csv (pandas_reading (Inr example_frame)) (files fresh_world) csv_file
      = Inr example_frame"
    by (simp add: pandas_reading_def)
  from schema_follows_columns [OF r well_labelled_example, of ascii_db]
  obtain fs where fs:
    "fst (infer_bigquery_schema_from_csv ascii_db (pandas_reading (Inr example_frame))
        csv_file fresh_world) = Inr fs"
    "length fs = length example_frame"
    "\<forall>i < length example_frame.
       fd_description (fs ! i)
         = str ''Inferred from CSV column '' @ [39] @ col_name (example_frame ! i) @ [39]"
    by blast
  have len: "length example_frame = 2" by (simp add: example_frame_def)
  from fs(3) len
  have "fd_description (fs ! 0) = str ''Inferred from CSV column '' @ [39] @ col_name (example_frame ! 0) @ [39]"
    "fd_description (fs ! 1) = str ''Inferred from CSV column '' @ [39] @ col_name (example_frame ! 1) @ [39]"
    by simp_all
  then have "fd_description (fs ! 0) = str ''Inferred from CSV column '' @ [39] @ str ''Team Name!'' @ [39]"
    "fd_description (fs ! 1) = str ''Inferred from CSV column '' @ [39] @ str ''2024 goals'' @ [39]"
    by (simp_all add: example_frame_def)
  with fs(1,2) len well_labelled_example show ?thesis by auto
qed




end
